theory Spec2Isabelle
  imports Complex_Main "HOL-Library.Char_ord" "HOL-Library.List_Lexorder"
begin

section \<open>The COVID-19 dashboard: data pipeline and callback of dashboard.py\<close>

text \<open>
  The script loads three tables, reshapes them at module level (lines 14 to 48) and
  serves one callback, \<open>update_visualizations\<close> (lines 122 to 160), that reads the
  module-level tables. The tables are modelled as lists of rows, a numeric cell as
  \<open>int option\<close> with \<open>None\<close> for NaN, and every exception the script can raise as a
  value of \<open>py_error\<close>. The date parser of pandas is a parameter \<open>parse\<close>: a label
  it cannot read is \<open>None\<close>.

  The script writes \<open>name\<close> where Python has the dunder name of the module (lines 51
  and 163); that is read as the usual idiom, so the tables are built and the callback is
  registered.
\<close>

subsection \<open>Tables\<close>

type_synonym timestamp = int

datatype py_error = DateParseError string | KeyError string | ValueError string

text \<open>The four identity columns of the two wide sources (the \<open>id_vars\<close> of lines 20 and 26).\<close>

record ident =
  Province_State :: "string option"
  Country_Region :: string
  Lat :: "real option"
  Long :: "real option"

text \<open>A row of a wide table: its identity columns and one cell under every date label.\<close>

datatype wide_row = WideRow (id_vars: ident) (cells: "string \<Rightarrow> int option")

record wide_table =
  date_columns :: "string list"
  wide_rows :: "wide_row list"

text \<open>A row of a melted table; \<open>'d\<close> is \<open>string\<close> before line 23 and \<open>timestamp\<close> after.\<close>

datatype 'd long_row = LongRow (id_of: ident) (Date: 'd) (Value: "int option")

text \<open>The columns of the vaccination source that line 33 keeps.\<close>

record raw_vacc_row =
  location :: string
  date :: string
  raw_total_vaccinations :: "int option"

record vacc_row =
  v_Country :: string
  v_Date :: "timestamp option"
  v_total_vaccinations :: "int option"

record country_row =
  Country :: string
  Confirmed_Cases :: "int option"
  Deaths :: "int option"
  total_vaccinations :: "int option"

record store =
  confirmed_data :: "timestamp long_row list"
  deaths_data :: "timestamp long_row list"
  vaccination_data :: "vacc_row list"
  country_data :: "country_row list"

subsection \<open>Reshaping (lines 19 to 34)\<close>

text \<open>\<open>DataFrame.melt\<close>: one block of rows per value column, the rows in table order.\<close>

definition melt :: "wide_table \<Rightarrow> string long_row list" where
  "melt t = concat (map (\<lambda>d. map (\<lambda>r. LongRow (id_vars r) d (cells r d)) (wide_rows t))
                        (date_columns t))"

text \<open>\<open>pd.to_datetime\<close> with the default \<open>errors="raise"\<close> (lines 23 and 29).\<close>

fun to_datetime :: "(string \<Rightarrow> timestamp option) \<Rightarrow> string long_row list
    \<Rightarrow> py_error + timestamp long_row list" where
  "to_datetime parse [] = Inr []"
| "to_datetime parse (r # rs) =
     (case parse (Date r) of
        None \<Rightarrow> Inl (DateParseError (Date r))
      | Some d \<Rightarrow>
          (case to_datetime parse rs of
             Inl e \<Rightarrow> Inl e
           | Inr rs' \<Rightarrow> Inr (LongRow (id_of r) d (Value r) # rs')))"

text \<open>Lines 32 to 34: \<open>errors="coerce"\<close> turns an unreadable date into NaT, here \<open>None\<close>.\<close>

definition vaccination_reshape :: "(string \<Rightarrow> timestamp option) \<Rightarrow> raw_vacc_row list
    \<Rightarrow> vacc_row list" where
  "vaccination_reshape parse rows =
     map (\<lambda>r. \<lparr>v_Country = location r, v_Date = parse (date r),
               v_total_vaccinations = raw_total_vaccinations r\<rparr>) rows"

subsection \<open>Summaries and joins (lines 37 to 48)\<close>

fun dropna :: "int option list \<Rightarrow> int list" where
  "dropna [] = []"
| "dropna (None # vs) = dropna vs"
| "dropna (Some v # vs) = v # dropna vs"

text \<open>The maximum of a group skips NaN and is NaN when nothing is left.\<close>

definition max_skipna :: "int option list \<Rightarrow> int option" where
  "max_skipna vs = (case dropna vs of [] \<Rightarrow> None | x # xs \<Rightarrow> Some (fold max xs x))"

text \<open>\<open>groupby(key)[val].max().reset_index()\<close>: one row per key, the keys sorted.\<close>

definition groupby_max :: "('r \<Rightarrow> string) \<Rightarrow> ('r \<Rightarrow> int option) \<Rightarrow> 'r list
    \<Rightarrow> (string \<times> int option) list" where
  "groupby_max key val rows =
     map (\<lambda>k. (k, max_skipna (map val (filter (\<lambda>r. key r = k) rows))))
         (sort (remdups (map key rows)))"

text \<open>
  \<open>left.merge(right, on="Country", how="left")\<close>: every left row, in order, once per
  right row with the same key, and once with NaN when there is none.
\<close>

definition merge_left :: "('l \<Rightarrow> string) \<Rightarrow> 'l list \<Rightarrow> (string \<times> int option) list
    \<Rightarrow> ('l \<times> int option) list" where
  "merge_left key left right =
     concat (map (\<lambda>l. case filter (\<lambda>kv. fst kv = key l) right of
                         [] \<Rightarrow> [(l, None)]
                       | ms \<Rightarrow> map (\<lambda>kv. (l, snd kv)) ms) left)"

definition fillna0 :: "int option \<Rightarrow> int option" where
  "fillna0 v = (case v of None \<Rightarrow> Some 0 | Some x \<Rightarrow> Some x)"

definition confirmed_summary :: "'d long_row list \<Rightarrow> (string \<times> int option) list" where
  "confirmed_summary cd = groupby_max (\<lambda>r. Country_Region (id_of r)) Value cd"

definition deaths_summary :: "'d long_row list \<Rightarrow> (string \<times> int option) list" where
  "deaths_summary dd = groupby_max (\<lambda>r. Country_Region (id_of r)) Value dd"

definition vaccination_summary :: "vacc_row list \<Rightarrow> (string \<times> int option) list" where
  "vaccination_summary vd = groupby_max v_Country v_total_vaccinations vd"

text \<open>
  Lines 46 to 48: two left joins onto the confirmed summary; only the vaccination column
  is filled with 0. The in-place fill of line 48 is taken to reach the table, as it does
  in the pandas versions the script was written for.
\<close>

definition merge_summaries :: "timestamp long_row list \<Rightarrow> timestamp long_row list
    \<Rightarrow> vacc_row list \<Rightarrow> country_row list" where
  "merge_summaries cd dd vd =
     map (\<lambda>((cc, d), v). \<lparr>Country = fst cc, Confirmed_Cases = snd cc, Deaths = d,
                          total_vaccinations = fillna0 v\<rparr>)
         (merge_left (\<lambda>l. fst (fst l))
            (merge_left fst (confirmed_summary cd) (deaths_summary dd))
            (vaccination_summary vd))"

text \<open>The module level of the script, lines 14 to 48, after the three tables are read.\<close>

definition load :: "(string \<Rightarrow> timestamp option) \<Rightarrow> wide_table \<Rightarrow> wide_table
    \<Rightarrow> raw_vacc_row list \<Rightarrow> py_error + store" where
  "load parse confirmed deaths vaccinations =
     (case to_datetime parse (melt confirmed) of
        Inl e \<Rightarrow> Inl e
      | Inr cd \<Rightarrow>
          (case to_datetime parse (melt deaths) of
             Inl e \<Rightarrow> Inl e
           | Inr dd \<Rightarrow>
               (let vd = vaccination_reshape parse vaccinations
                in Inr \<lparr>confirmed_data = cd, deaths_data = dd, vaccination_data = vd,
                        country_data = merge_summaries cd dd vd\<rparr>)))"

subsection \<open>The callback (lines 122 to 160)\<close>

datatype cell = Str string | Num "int option"

text \<open>The table a time series is drawn from, with the name of its value column.\<close>

datatype ts_data = CaseTable string "timestamp long_row list" | VaccTable "vacc_row list"

datatype figure =
    EmptyFigure
  | Choropleth (locations: "string list") (z: "cell list") (colorbar_title: string)
      (map_title: string)
  | LineFigure (line_data: ts_data) (line_x: string) (line_y: string) (line_title: string)

text \<open>\<open>country_data[selected_data]\<close>: a KeyError unless the name is a column.\<close>

definition country_column :: "country_row list \<Rightarrow> string \<Rightarrow> py_error + cell list" where
  "country_column cd name =
     (if name = ''Country'' then Inr (map (\<lambda>r. Str (Country r)) cd)
      else if name = ''Confirmed Cases'' then Inr (map (\<lambda>r. Num (Confirmed_Cases r)) cd)
      else if name = ''Deaths'' then Inr (map (\<lambda>r. Num (Deaths r)) cd)
      else if name = ''total_vaccinations'' then Inr (map (\<lambda>r. Num (total_vaccinations r)) cd)
      else Inl (KeyError name))"

definition map_figure :: "country_row list \<Rightarrow> string \<Rightarrow> py_error + figure" where
  "map_figure cd selected_data =
     (case country_column cd selected_data of
        Inl e \<Rightarrow> Inl e
      | Inr zs \<Rightarrow> Inr (Choropleth (map Country cd) zs selected_data
                        (''Global '' @ selected_data @ '' Data'')))"

fun ts_columns :: "ts_data \<Rightarrow> string list" where
  "ts_columns (CaseTable value_name rows) =
     [''Province/State'', ''Country/Region'', ''Lat'', ''Long'', ''Date'', value_name]"
| "ts_columns (VaccTable rows) = [''Country'', ''Date'', ''total_vaccinations'']"

fun ts_empty :: "ts_data \<Rightarrow> bool" where
  "ts_empty (CaseTable value_name rows) = (rows = [])"
| "ts_empty (VaccTable rows) = (rows = [])"

text \<open>Lines 141 to 146: the rows of the selected country; every other name takes the deaths.\<close>

definition filter_ts :: "store \<Rightarrow> string \<Rightarrow> string \<Rightarrow> ts_data" where
  "filter_ts st selected_country selected_data =
     (if selected_data = ''total_vaccinations''
      then VaccTable (filter (\<lambda>r. v_Country r = selected_country) (vaccination_data st))
      else if selected_data = ''Confirmed Cases''
      then CaseTable ''Confirmed Cases''
             (filter (\<lambda>r. Country_Region (id_of r) = selected_country) (confirmed_data st))
      else CaseTable ''Deaths''
             (filter (\<lambda>r. Country_Region (id_of r) = selected_country) (deaths_data st)))"

text \<open>\<open>px.line\<close> raises a ValueError when \<open>y\<close> is not a column of the frame.\<close>

definition px_line :: "ts_data \<Rightarrow> string \<Rightarrow> string \<Rightarrow> string \<Rightarrow> py_error + figure" where
  "px_line ts x y ttl =
     (if x \<in> set (ts_columns ts) \<and> y \<in> set (ts_columns ts)
      then Inr (LineFigure ts x y ttl) else Inl (ValueError y))"

text \<open>
  The dropdown values arrive as a string or as None; \<open>not v\<close> holds for None and for
  the empty string (line 124).
\<close>

fun update_visualizations :: "store \<Rightarrow> string option \<Rightarrow> string option
    \<Rightarrow> py_error + (figure \<times> figure)" where
  "update_visualizations st (Some selected_country) (Some selected_data) =
     (if selected_country = [] \<or> selected_data = [] then Inr (EmptyFigure, EmptyFigure)
      else
        (case map_figure (country_data st) selected_data of
           Inl e \<Rightarrow> Inl e
         | Inr mf \<Rightarrow>
             (let ts = filter_ts st selected_country selected_data
              in if ts_empty ts then Inr (mf, EmptyFigure)
                 else (case px_line ts ''Date'' selected_data
                              (selected_data @ '' Over Time in '' @ selected_country) of
                         Inl e \<Rightarrow> Inl e
                       | Inr tf \<Rightarrow> Inr (mf, tf)))))"
| "update_visualizations st _ _ = Inr (EmptyFigure, EmptyFigure)"

subsection \<open>The aggregation the specification describes\<close>

text \<open>
  The script never sums. The sum of a group by identity and date is written here from
  the specification's round-trip property, to compare the melted table with the wide one;
  as in pandas, a sum skips NaN.
\<close>

definition spec_sum_by_identity_date :: "'d long_row list \<Rightarrow> ident \<Rightarrow> 'd \<Rightarrow> int" where
  "spec_sum_by_identity_date rows k d =
     sum_list (dropna (map Value (filter (\<lambda>r. id_of r = k \<and> Date r = d) rows)))"

subsection \<open>A small data set\<close>

text \<open>
  Two provinces of one country and a country without provinces in the confirmed source,
  the provinces alone in the deaths source, and four vaccination rows: one spelt in lower
  case, one with an unreadable date, one of a country the confirmed source lacks.
\<close>

definition ex_parse :: "string \<Rightarrow> timestamp option" where
  "ex_parse s =
     (if s = ''1/22/20'' then Some 18283
      else if s = ''2021-01-10'' then Some 18637
      else if s = ''2021-01-11'' then Some 18638
      else None)"

definition hubei :: ident where
  "hubei = \<lparr>Province_State = Some ''Hubei'', Country_Region = ''China'',
            Lat = None, Long = None\<rparr>"

definition beijing :: ident where
  "beijing = \<lparr>Province_State = Some ''Beijing'', Country_Region = ''China'',
              Lat = None, Long = None\<rparr>"

definition fiji :: ident where
  "fiji = \<lparr>Province_State = None, Country_Region = ''Fiji'', Lat = None, Long = None\<rparr>"

definition one_cell :: "int \<Rightarrow> string \<Rightarrow> int option" where
  "one_cell v d = (if d = ''1/22/20'' then Some v else None)"

definition ex_confirmed :: wide_table where
  "ex_confirmed = \<lparr>date_columns = [''1/22/20''],
     wide_rows = [WideRow hubei (one_cell 5), WideRow beijing (one_cell 7),
                  WideRow fiji (one_cell 3)]\<rparr>"

definition ex_deaths :: wide_table where
  "ex_deaths = \<lparr>date_columns = [''1/22/20''],
     wide_rows = [WideRow hubei (one_cell 1), WideRow beijing (one_cell 2)]\<rparr>"

definition ex_vaccinations :: "raw_vacc_row list" where
  "ex_vaccinations =
     [\<lparr>location = ''China'', date = ''2021-01-10'', raw_total_vaccinations = Some 100\<rparr>,
      \<lparr>location = ''china'', date = ''2021-01-11'', raw_total_vaccinations = Some 900\<rparr>,
      \<lparr>location = ''China'', date = ''soon'', raw_total_vaccinations = Some 50\<rparr>,
      \<lparr>location = ''Tonga'', date = ''2021-01-10'', raw_total_vaccinations = Some 8\<rparr>]"

text \<open>The tables the script holds after loading the data set.\<close>

definition ex_store :: store where
  "ex_store = \<lparr>
     confirmed_data = [LongRow hubei 18283 (Some 5), LongRow beijing 18283 (Some 7),
                       LongRow fiji 18283 (Some 3)],
     deaths_data = [LongRow hubei 18283 (Some 1), LongRow beijing 18283 (Some 2)],
     vaccination_data =
       [\<lparr>v_Country = ''China'', v_Date = Some 18637, v_total_vaccinations = Some 100\<rparr>,
        \<lparr>v_Country = ''china'', v_Date = Some 18638, v_total_vaccinations = Some 900\<rparr>,
        \<lparr>v_Country = ''China'', v_Date = None, v_total_vaccinations = Some 50\<rparr>,
        \<lparr>v_Country = ''Tonga'', v_Date = Some 18637, v_total_vaccinations = Some 8\<rparr>],
     country_data =
       [\<lparr>Country = ''China'', Confirmed_Cases = Some 7, Deaths = Some 2,
         total_vaccinations = Some 100\<rparr>,
        \<lparr>Country = ''Fiji'', Confirmed_Cases = Some 3, Deaths = None,
         total_vaccinations = Some 0\<rparr>]\<rparr>"

section \<open>Properties\<close>

subsection \<open>Auxiliary facts about the tables\<close>

lemma length_melt: "length (melt t) = length (wide_rows t) * length (date_columns t)"
  by (simp add: melt_def length_concat comp_def sum_list_triv)

lemma concat_other: "d \<notin> set ds \<Longrightarrow> concat (map (\<lambda>d'. if d' = d then X else []) ds) = []"
  by (induction ds) auto

lemma concat_pick:
  "distinct ds \<Longrightarrow> d \<in> set ds \<Longrightarrow> concat (map (\<lambda>d'. if d' = d then X else []) ds) = X"
  by (induction ds) (auto simp: concat_other)

lemma filter_melt:
  "filter (\<lambda>x. id_of x = k \<and> Date x = d) (melt t) =
   concat (map (\<lambda>d'. if d' = d
                      then map (\<lambda>r. LongRow (id_vars r) d (cells r d))
                             (filter (\<lambda>r. id_vars r = k) (wide_rows t))
                      else []) (date_columns t))"
  unfolding melt_def filter_concat map_map
  by (rule arg_cong [where f = concat], rule map_cong) (auto simp: filter_map comp_def)

lemma length_filter_melt:
  "length (filter (\<lambda>r. Q (id_of r) \<and> R (Date r)) (melt t)) =
   length (filter (\<lambda>r. Q (id_vars r)) (wide_rows t)) * length (filter R (date_columns t))"
proof -
  have "length (filter (\<lambda>r. Q (id_of r) \<and> R (Date r))
          (concat (map (\<lambda>d. map (\<lambda>r. LongRow (id_vars r) d (cells r d)) rows) ds))) =
        length (filter (\<lambda>r. Q (id_vars r)) rows) * length (filter R ds)" for rows ds
    by (induction ds) (simp_all add: filter_map comp_def)
  then show ?thesis by (simp add: melt_def)
qed

lemma set_dropna: "set (dropna vs) = {v. Some v \<in> set vs}"
  by (induction vs rule: dropna.induct) auto

lemma max_skipna_Some:
  "max_skipna vs = Some x \<longleftrightarrow> Some x \<in> set vs \<and> (\<forall>y. Some y \<in> set vs \<longrightarrow> y \<le> x)"
proof (cases "dropna vs")
  case Nil
  then have "{v. Some v \<in> set vs} = {}" using set_dropna [of vs] by simp
  with Nil show ?thesis by (auto simp: max_skipna_def)
next
  case (Cons a as)
  have S: "set (a # as) = {v. Some v \<in> set vs}" using set_dropna [of vs] Cons by simp
  have "fold max as a = Max (set (a # as))" by (simp only: Max.set_eq_fold)
  then have "max_skipna vs = Some (Max (set (a # as)))" using Cons by (simp add: max_skipna_def)
  moreover have "Max (set (a # as)) = x \<longleftrightarrow> x \<in> set (a # as) \<and> (\<forall>y\<in>set (a # as). y \<le> x)"
    by (rule Max_eq_iff) simp_all
  ultimately show ?thesis unfolding S by auto
qed

lemma groupby_max_keys: "map fst (groupby_max key val rows) = sort (remdups (map key rows))"
  by (simp add: groupby_max_def comp_def)

lemma distinct_groupby_max: "distinct (map fst (groupby_max key val rows))"
  by (simp add: groupby_max_keys)

lemma map_of_groupby_max:
  "map_of (groupby_max key val rows) k =
     (if k \<in> key ` set rows then Some (max_skipna (map val (filter (\<lambda>r. key r = k) rows)))
      else None)"
  by (simp add: groupby_max_def map_of_map_restrict restrict_map_def)

lemma filter_key_distinct:
  "distinct (map fst right) \<Longrightarrow>
   filter (\<lambda>kv. fst kv = k) right = (case map_of right k of None \<Rightarrow> [] | Some v \<Rightarrow> [(k, v)])"
proof (induction right)
  case Nil
  then show ?case by simp
next
  case (Cons a right)
  then show ?case
    by (cases a) (force split: option.splits simp: map_of_eq_None_iff dest: map_of_SomeD)
qed

lemma merge_left_distinct:
  "distinct (map fst right) \<Longrightarrow>
   merge_left key left right =
     map (\<lambda>l. (l, case map_of right (key l) of None \<Rightarrow> None | Some v \<Rightarrow> v)) left"
  unfolding merge_left_def
  by (induction left) (auto simp: filter_key_distinct split: option.splits)

lemma lookup_groupby_max:
  "(case map_of (groupby_max key val rows) k of None \<Rightarrow> None | Some v \<Rightarrow> v) =
   max_skipna (map val (filter (\<lambda>r. key r = k) rows))"
proof (cases "k \<in> key ` set rows")
  case True
  then show ?thesis by (simp add: map_of_groupby_max)
next
  case False
  then have "filter (\<lambda>r. key r = k) rows = []" by (auto simp: filter_empty_conv)
  with False show ?thesis by (simp add: map_of_groupby_max max_skipna_def)
qed

lemma merge_summaries_eq:
  "merge_summaries cd dd vd =
     map (\<lambda>c. \<lparr>Country = c,
               Confirmed_Cases =
                 max_skipna (map Value (filter (\<lambda>r. Country_Region (id_of r) = c) cd)),
               Deaths = max_skipna (map Value (filter (\<lambda>r. Country_Region (id_of r) = c) dd)),
               total_vaccinations =
                 fillna0 (max_skipna (map v_total_vaccinations
                                        (filter (\<lambda>r. v_Country r = c) vd)))\<rparr>)
         (sort (remdups (map (\<lambda>r. Country_Region (id_of r)) cd)))"
  unfolding merge_summaries_def
  by (simp add: merge_left_distinct distinct_groupby_max confirmed_summary_def deaths_summary_def
      vaccination_summary_def lookup_groupby_max comp_def)
    (simp add: groupby_max_def comp_def)

lemma to_datetime_Inr:
  "to_datetime parse rs = Inr rs' \<Longrightarrow>
   rs' = map (\<lambda>r. LongRow (id_of r) (the (parse (Date r))) (Value r)) rs \<and>
   (\<forall>r\<in>set rs. parse (Date r) \<noteq> None)"
  by (induction rs arbitrary: rs') (auto split: option.splits sum.splits)

lemma load_ex: "load ex_parse ex_confirmed ex_deaths ex_vaccinations = Inr ex_store"
  by code_simp

lemma in_groupby_max:
  "(k, v) \<in> set (groupby_max key val rows) \<longleftrightarrow>
   k \<in> key ` set rows \<and> v = max_skipna (map val (filter (\<lambda>r. key r = k) rows))"
  by (auto simp: groupby_max_def)

lemma groupby_max_Some:
  "(c, Some x) \<in> set (groupby_max key val rows) \<longleftrightarrow>
      (\<exists>r\<in>set rows. key r = c \<and> val r = Some x) \<and>
      (\<forall>r\<in>set rows. key r = c \<longrightarrow> (\<forall>y. val r = Some y \<longrightarrow> y \<le> x))"
  unfolding in_groupby_max eq_commute [of "Some x"] max_skipna_Some
  by (auto simp: image_iff) (metis+)

lemmas ex_defs = ex_store_def ex_confirmed_def ex_deaths_def ex_vaccinations_def ex_parse_def
  hubei_def beijing_def fiji_def one_cell_def

lemma load_Inr:
  "load parse confirmed deaths vaccinations = Inr st \<Longrightarrow>
   to_datetime parse (melt confirmed) = Inr (confirmed_data st) \<and>
   to_datetime parse (melt deaths) = Inr (deaths_data st) \<and>
   vaccination_data st = vaccination_reshape parse vaccinations \<and>
   country_data st = merge_summaries (confirmed_data st) (deaths_data st) (vaccination_data st)"
  by (auto simp: load_def Let_def split: sum.splits)

lemma length_filter_to_datetime_melt:
  assumes "to_datetime parse (melt t) = Inr rs"
  shows "length (filter (\<lambda>r. Q (id_of r) \<and> Date r = ts) rs) =
         length (filter (\<lambda>r. Q (id_vars r)) (wide_rows t)) *
         length (filter (\<lambda>d. parse d = Some ts) (date_columns t))"
proof -
  from to_datetime_Inr [OF assms]
  have rs: "rs = map (\<lambda>r. LongRow (id_of r) (the (parse (Date r))) (Value r)) (melt t)"
    and ok: "\<forall>r\<in>set (melt t). parse (Date r) \<noteq> None"
    by simp_all
  have "length (filter (\<lambda>r. Q (id_of r) \<and> Date r = ts) rs) =
        length (filter (\<lambda>r. Q (id_of r) \<and> the (parse (Date r)) = ts) (melt t))"
    by (simp add: rs filter_map comp_def)
  also have "filter (\<lambda>r. Q (id_of r) \<and> the (parse (Date r)) = ts) (melt t) =
             filter (\<lambda>r. Q (id_of r) \<and> parse (Date r) = Some ts) (melt t)"
    using ok by (intro filter_cong refl) auto
  finally show ?thesis
    using length_filter_melt [where Q = Q and R = "\<lambda>d. parse d = Some ts" and t = t] by simp
qed

lemma values_to_datetime:
  "to_datetime parse xs = Inr rs \<Longrightarrow>
   map Value (filter (\<lambda>r. Q (id_of r)) rs) = map Value (filter (\<lambda>r. Q (id_of r)) xs)"
  by (drule to_datetime_Inr) (simp add: filter_map comp_def)

lemma ids_to_datetime: "to_datetime parse xs = Inr rs \<Longrightarrow> map id_of rs = map id_of xs"
  by (drule to_datetime_Inr) (simp add: comp_def)

lemma ids_melt: "r \<in> set (melt t) \<Longrightarrow> id_of r \<in> id_vars ` set (wide_rows t)"
  by (auto simp: melt_def)

lemma values_vaccination_reshape:
  "map v_total_vaccinations (filter (\<lambda>x. v_Country x = c) (vaccination_reshape parse rows)) =
   map raw_total_vaccinations (filter (\<lambda>x. location x = c) rows)"
  by (simp add: vaccination_reshape_def filter_map comp_def)

lemma set_ids_melt:
  "date_columns t \<noteq> [] \<Longrightarrow> set (map id_of (melt t)) = set (map id_vars (wide_rows t))"
  by (cases "date_columns t") (auto simp: melt_def)

lemma map_figure_recognised:
  "m \<in> {''Confirmed Cases'', ''Deaths'', ''total_vaccinations''} \<Longrightarrow>
   \<exists>f. map_figure cd m = Inr f"
  by (auto simp: map_figure_def country_column_def)

lemma px_line_recognised:
  "m \<in> {''Confirmed Cases'', ''Deaths'', ''total_vaccinations''} \<Longrightarrow>
   px_line (filter_ts st c m) ''Date'' m ttl = Inr (LineFigure (filter_ts st c m) ''Date'' m ttl)"
  by (auto simp: px_line_def filter_ts_def)

lemma update_visualizations_recognised:
  assumes "c \<noteq> []" and "m \<in> {''Confirmed Cases'', ''Deaths'', ''total_vaccinations''}"
    and "map_figure (country_data st) m = Inr f"
  shows "\<exists>u. update_visualizations st (Some c) (Some m) = Inr (f, u)"
proof -
  from assms(2) have "m \<noteq> []" by auto
  with assms(1,3) px_line_recognised [OF assms(2)] show ?thesis
    by (simp add: Let_def)
qed

lemma update_visualizations_map:
  "c \<noteq> [] \<Longrightarrow> update_visualizations st (Some c) m = Inr (f, u) \<Longrightarrow>
   (if m = None \<or> m = Some [] then f = EmptyFigure
    else map_figure (country_data st) (the m) = Inr f)"
  by (cases m) (auto simp: Let_def split: sum.splits if_splits)

subsection \<open>C1: the snapshot of a country is a maximum, not a sum\<close>

text \<open>
  C1, as the code has it. Lines 37 and 40 group the confirmed and the deaths records by
  country alone and take the maximum: the summary holds a value \<open>x\<close> for a country
  exactly when some record of that country, of any province and any date, has the value
  \<open>x\<close> and no record of that country has a larger one. Nothing is grouped by date and
  nothing is summed.
\<close>

theorem summary_is_country_maximum:
  "((c, Some x) \<in> set (confirmed_summary cd) \<longleftrightarrow>
      (\<exists>r\<in>set cd. Country_Region (id_of r) = c \<and> Value r = Some x) \<and>
      (\<forall>r\<in>set cd. Country_Region (id_of r) = c \<longrightarrow> (\<forall>y. Value r = Some y \<longrightarrow> y \<le> x))) \<and>
   ((c, Some x) \<in> set (deaths_summary dd) \<longleftrightarrow>
      (\<exists>r\<in>set dd. Country_Region (id_of r) = c \<and> Value r = Some x) \<and>
      (\<forall>r\<in>set dd. Country_Region (id_of r) = c \<longrightarrow> (\<forall>y. Value r = Some y \<longrightarrow> y \<le> x)))"
  unfolding confirmed_summary_def deaths_summary_def
  by (simp only: groupby_max_Some)

text \<open>In the data set the maximum of China is 7 confirmed cases and 2 deaths.\<close>

theorem summary_is_country_maximum_witness:
  "(''China'', Some 7) \<in> set (confirmed_summary (confirmed_data ex_store)) \<and>
   (''China'', Some 2) \<in> set (deaths_summary (deaths_data ex_store))"
  using summary_is_country_maximum [of "''China''" 7 "confirmed_data ex_store" "deaths_data ex_store"]
    summary_is_country_maximum [of "''China''" 2 "confirmed_data ex_store" "deaths_data ex_store"]
  by (simp add: ex_defs)

text \<open>
  C1 as stated fails: two provinces of China report 5 and 7 confirmed cases on the same
  date, and the national value is 7, not 12 (and 2 deaths, not 3).
\<close>

theorem two_provinces_not_summed:
  "load ex_parse ex_confirmed ex_deaths ex_vaccinations = Inr ex_store \<and>
   confirmed_summary (confirmed_data ex_store) = [(''China'', Some 7), (''Fiji'', Some 3)] \<and>
   deaths_summary (deaths_data ex_store) = [(''China'', Some 2)]"
  by code_simp

subsection \<open>C2: a metric that is no column of the summary raises a KeyError\<close>

text \<open>
  C2, as the code has it. The callback never checks the metric against the three
  recognised names: line 131 reads the column of that name from the summary table. For a
  non-empty country and a non-empty metric that is none of the four columns of the
  summary, the callback fails with a KeyError.
\<close>

theorem unknown_column_raises_KeyError:
  "c \<noteq> [] \<Longrightarrow> m \<noteq> [] \<Longrightarrow>
   m \<notin> {''Country'', ''Confirmed Cases'', ''Deaths'', ''total_vaccinations''} \<Longrightarrow>
   update_visualizations st (Some c) (Some m) = Inl (KeyError m)"
  by (simp add: map_figure_def country_column_def)

theorem unknown_column_raises_KeyError_witness:
  "''Fiji'' \<noteq> [] \<and> ''not_a_metric'' \<noteq> [] \<and>
   ''not_a_metric'' \<notin> {''Country'', ''Confirmed Cases'', ''Deaths'', ''total_vaccinations''} \<and>
   update_visualizations ex_store (Some ''Fiji'') (Some ''not_a_metric'') =
     Inl (KeyError ''not_a_metric'')"
  using unknown_column_raises_KeyError [of "''Fiji''" "''not_a_metric''" ex_store]
  by simp

text \<open>
  C2 as stated fails: the name of the key column is none of the three metrics, yet the
  callback answers it with a map of the country names and, through the final
  \<open>else\<close> of line 145, with the (here empty) deaths series. An empty metric and
  a missing one are answered too, with two empty figures (line 124).
\<close>

theorem country_column_accepted_as_metric:
  "update_visualizations ex_store (Some ''Atlantis'') (Some ''Country'') =
     Inr (Choropleth [''China'', ''Fiji''] [Str ''China'', Str ''Fiji''] ''Country''
            ''Global Country Data'', EmptyFigure) \<and>
   update_visualizations ex_store (Some ''Fiji'') (Some []) = Inr (EmptyFigure, EmptyFigure) \<and>
   update_visualizations ex_store (Some ''Fiji'') None = Inr (EmptyFigure, EmptyFigure)"
  by code_simp

subsection \<open>C3: the history keeps every sub-national row\<close>

text \<open>
  C3, as the code has it. The melted tables are never aggregated: line 144 (and 146)
  selects the rows of the chosen country as they are. After a load that succeeds, the
  confirmed table holds, for a country and a date, one record for each source row of that
  country and each date column that parses to that date; the deaths table likewise. A
  country with two provinces has two records for each date.
\<close>

theorem history_keeps_every_subnational_row:
  assumes "load parse confirmed deaths vaccinations = Inr st"
  shows "length (filter (\<lambda>r. Country_Region (id_of r) = c \<and> Date r = ts) (confirmed_data st)) =
           length (filter (\<lambda>r. Country_Region (id_vars r) = c) (wide_rows confirmed)) *
           length (filter (\<lambda>d. parse d = Some ts) (date_columns confirmed)) \<and>
         length (filter (\<lambda>r. Country_Region (id_of r) = c \<and> Date r = ts) (deaths_data st)) =
           length (filter (\<lambda>r. Country_Region (id_vars r) = c) (wide_rows deaths)) *
           length (filter (\<lambda>d. parse d = Some ts) (date_columns deaths))"
  using load_Inr [OF assms]
    length_filter_to_datetime_melt [of parse confirmed "confirmed_data st" "\<lambda>i. Country_Region i = c" ts]
    length_filter_to_datetime_melt [of parse deaths "deaths_data st" "\<lambda>i. Country_Region i = c" ts]
  by simp

text \<open>
  In the data set China has two rows and one date column, hence two records for that date.
\<close>

theorem history_keeps_every_subnational_row_witness:
  "load ex_parse ex_confirmed ex_deaths ex_vaccinations = Inr ex_store \<and>
   length (filter (\<lambda>r. Country_Region (id_of r) = ''China'' \<and> Date r = 18283)
             (confirmed_data ex_store)) = 2 \<and>
   length (filter (\<lambda>r. Country_Region (id_of r) = ''China'' \<and> Date r = 18283)
             (deaths_data ex_store)) = 2"
  using history_keeps_every_subnational_row [OF load_ex, of "''China''" 18283] load_ex
  by (simp add: ex_defs)

text \<open>
  C3 as stated fails: the history the callback draws for China and the confirmed cases
  has two records for the one date, the values 5 and 7 of the two provinces.
\<close>

theorem history_has_two_records_for_one_date:
  "update_visualizations ex_store (Some ''China'') (Some ''Confirmed Cases'') =
     Inr (Choropleth [''China'', ''Fiji''] [Num (Some 7), Num (Some 3)] ''Confirmed Cases''
            ''Global Confirmed Cases Data'',
          LineFigure (CaseTable ''Confirmed Cases''
                        [LongRow hubei 18283 (Some 5), LongRow beijing 18283 (Some 7)])
            ''Date'' ''Confirmed Cases'' ''Confirmed Cases Over Time in China'')"
  by code_simp

subsection \<open>C4: only the vaccination column is filled with zero\<close>

text \<open>
  C4 at an input the code can receive: Fiji is in the confirmed source and has no row in
  the deaths source nor in the vaccination source. Line 48 fills its vaccination value
  with 0; its deaths value, left-joined at line 46, stays NaN.
\<close>

theorem deaths_not_zero_filled:
  "load ex_parse ex_confirmed ex_deaths ex_vaccinations = Inr ex_store \<and>
   filter (\<lambda>r. Country_Region (id_of r) = ''Fiji'') (deaths_data ex_store) = [] \<and>
   filter (\<lambda>r. v_Country r = ''Fiji'') (vaccination_data ex_store) = [] \<and>
   map Country (country_data ex_store) = [''China'', ''Fiji''] \<and>
   country_column (country_data ex_store) ''Deaths'' = Inr [Num (Some 2), Num None] \<and>
   country_column (country_data ex_store) ''total_vaccinations'' =
     Inr [Num (Some 100), Num (Some 0)]"
  by code_simp

subsection \<open>C5: the join key is the raw country string\<close>

text \<open>
  C5, as the code has it. No identifier is trimmed or case-folded. Grouping by
  \<open>Country/Region\<close> drops the province, and every join compares the raw strings for
  equality: after a load that succeeds, each row of the summary carries the country string
  of some row of the confirmed source, and its three values are the maxima over exactly
  those rows of each source whose country string equals that key, character for
  character.
\<close>

theorem join_key_is_raw_country_string:
  assumes "load parse confirmed deaths vaccinations = Inr st" and "r \<in> set (country_data st)"
  shows "(\<exists>w\<in>set (wide_rows confirmed). Country_Region (id_vars w) = Country r) \<and>
         Confirmed_Cases r =
           max_skipna (map Value (filter (\<lambda>x. Country_Region (id_of x) = Country r)
                                    (melt confirmed))) \<and>
         Deaths r =
           max_skipna (map Value (filter (\<lambda>x. Country_Region (id_of x) = Country r)
                                    (melt deaths))) \<and>
         total_vaccinations r =
           fillna0 (max_skipna (map raw_total_vaccinations
                                  (filter (\<lambda>x. location x = Country r) vaccinations)))"
proof -
  note L = load_Inr [OF assms(1)]
  from L have cdt: "to_datetime parse (melt confirmed) = Inr (confirmed_data st)"
    and ddt: "to_datetime parse (melt deaths) = Inr (deaths_data st)"
    and vd: "vaccination_data st = vaccination_reshape parse vaccinations"
    and cd: "country_data st =
        merge_summaries (confirmed_data st) (deaths_data st) (vaccination_data st)"
    by simp_all
  from assms(2) obtain c where c: "c \<in> set (map (\<lambda>x. Country_Region (id_of x)) (confirmed_data st))"
    and r: "r = \<lparr>Country = c,
       Confirmed_Cases =
         max_skipna (map Value (filter (\<lambda>x. Country_Region (id_of x) = c) (confirmed_data st))),
       Deaths =
         max_skipna (map Value (filter (\<lambda>x. Country_Region (id_of x) = c) (deaths_data st))),
       total_vaccinations =
         fillna0 (max_skipna (map v_total_vaccinations
                                (filter (\<lambda>x. v_Country x = c) (vaccination_data st))))\<rparr>"
    unfolding cd merge_summaries_eq by auto
  from c have "c \<in> Country_Region ` set (map id_of (confirmed_data st))" by auto
  then have "c \<in> Country_Region ` set (map id_of (melt confirmed))"
    by (simp only: ids_to_datetime [OF cdt])
  then obtain x where "x \<in> set (melt confirmed)" "Country_Region (id_of x) = c" by auto
  with ids_melt [of x confirmed]
  have 1: "\<exists>w\<in>set (wide_rows confirmed). Country_Region (id_vars w) = Country r"
    by (auto simp: r)
  have 2: "Confirmed_Cases r =
           max_skipna (map Value (filter (\<lambda>x. Country_Region (id_of x) = Country r)
                                    (melt confirmed)))"
    using values_to_datetime [OF cdt, of "\<lambda>i. Country_Region i = c"] by (simp add: r)
  have 3: "Deaths r =
           max_skipna (map Value (filter (\<lambda>x. Country_Region (id_of x) = Country r)
                                    (melt deaths)))"
    using values_to_datetime [OF ddt, of "\<lambda>i. Country_Region i = c"] by (simp add: r)
  have 4: "total_vaccinations r =
           fillna0 (max_skipna (map raw_total_vaccinations
                                  (filter (\<lambda>x. location x = Country r) vaccinations)))"
    by (simp add: r vd values_vaccination_reshape)
  from 1 2 3 4 show ?thesis by blast
qed

theorem join_key_is_raw_country_string_witness:
  "load ex_parse ex_confirmed ex_deaths ex_vaccinations = Inr ex_store \<and>
   \<lparr>Country = ''China'', Confirmed_Cases = Some 7, Deaths = Some 2,
    total_vaccinations = Some 100\<rparr> \<in> set (country_data ex_store) \<and>
   fillna0 (max_skipna (map raw_total_vaccinations
                          (filter (\<lambda>x. location x = ''China'') ex_vaccinations))) = Some 100"
proof -
  have r: "\<lparr>Country = ''China'', Confirmed_Cases = Some 7, Deaths = Some 2,
            total_vaccinations = Some 100\<rparr> \<in> set (country_data ex_store)"
    by (simp add: ex_store_def)
  from join_key_is_raw_country_string [OF load_ex r] load_ex r
  show ?thesis by simp
qed

text \<open>
  C5 as stated fails: \<open>china\<close> differs from \<open>China\<close> only in case, yet it is
  a group of its own in the vaccination summary, and its 900 vaccinations are not joined
  to China, whose value stays 100.
\<close>

theorem case_variant_is_another_country:
  "load ex_parse ex_confirmed ex_deaths ex_vaccinations = Inr ex_store \<and>
   vaccination_summary (vaccination_data ex_store) =
     [(''China'', Some 100), (''Tonga'', Some 8), (''china'', Some 900)] \<and>
   map total_vaccinations (country_data ex_store) = [Some 100, Some 0]"
  by code_simp

subsection \<open>C6: no rows is a success for every country\<close>

text \<open>
  C6, as the code has it. The callback never looks the country up in the universe. For
  a non-empty country, in the universe or not, and one of the three metrics, when the
  table of that metric has no row of that country (line 149) the callback returns the map
  and an empty figure; there is no UnknownCountry error.
\<close>

theorem no_rows_is_success_for_any_country:
  assumes "c \<noteq> []" and "m \<in> {''Confirmed Cases'', ''Deaths'', ''total_vaccinations''}"
    and "ts_empty (filter_ts st c m)"
  shows "\<exists>f. map_figure (country_data st) m = Inr f \<and>
       update_visualizations st (Some c) (Some m) = Inr (f, EmptyFigure)"
proof -
  from map_figure_recognised [OF assms(2)]
  obtain f where f: "map_figure (country_data st) m = Inr f" ..
  from assms(2) have "m \<noteq> []" by auto
  with assms(1,3) f have "update_visualizations st (Some c) (Some m) = Inr (f, EmptyFigure)"
    by (simp add: Let_def)
  with f show ?thesis by blast
qed

theorem no_rows_is_success_for_any_country_witness:
  "''Atlantis'' \<noteq> [] \<and> ''Deaths'' \<in> {''Confirmed Cases'', ''Deaths'', ''total_vaccinations''} \<and>
   ts_empty (filter_ts ex_store ''Atlantis'' ''Deaths'') \<and>
   (\<exists>f. map_figure (country_data ex_store) ''Deaths'' = Inr f \<and>
        update_visualizations ex_store (Some ''Atlantis'') (Some ''Deaths'') =
          Inr (f, EmptyFigure))"
proof -
  have a: "''Atlantis'' \<noteq> []" by simp
  have b: "''Deaths'' \<in> {''Confirmed Cases'', ''Deaths'', ''total_vaccinations''}" by simp
  have e: "ts_empty (filter_ts ex_store ''Atlantis'' ''Deaths'')"
    by (simp add: filter_ts_def ex_defs)
  from no_rows_is_success_for_any_country [OF a b e] a b e
  show ?thesis by blast
qed

text \<open>
  C6 as stated fails: Atlantis was never in the universe and Fiji is in it without any
  deaths row; the callback gives both the same successful answer.
\<close>

theorem unknown_country_is_no_error:
  "''Atlantis'' \<notin> set (map Country (country_data ex_store)) \<and>
   ''Fiji'' \<in> set (map Country (country_data ex_store)) \<and>
   update_visualizations ex_store (Some ''Atlantis'') (Some ''Deaths'') =
     Inr (Choropleth [''China'', ''Fiji''] [Num (Some 2), Num None] ''Deaths''
            ''Global Deaths Data'', EmptyFigure) \<and>
   update_visualizations ex_store (Some ''Fiji'') (Some ''Deaths'') =
     update_visualizations ex_store (Some ''Atlantis'') (Some ''Deaths'')"
  by code_simp

subsection \<open>C7: a vaccination row with an unreadable date is kept\<close>

text \<open>
  C7, as the code has it. Line 32 coerces: the vaccination table keeps every row of
  the source, in order, with its country and its value, and the date of a row is NaT
  exactly when it does not parse. No row is dropped, and the vaccination rows have no
  part in whether loading fails.
\<close>

theorem unparsable_date_becomes_NaT:
  "length (vaccination_reshape parse rows) = length rows \<and>
   map v_Date (vaccination_reshape parse rows) = map (\<lambda>r. parse (date r)) rows \<and>
   map v_Country (vaccination_reshape parse rows) = map location rows \<and>
   map v_total_vaccinations (vaccination_reshape parse rows) = map raw_total_vaccinations rows \<and>
   (case load parse confirmed deaths rows of
      Inl e \<Rightarrow> load parse confirmed deaths [] = Inl e
    | Inr st \<Rightarrow> vaccination_data st = vaccination_reshape parse rows)"
proof -
  have "(case load parse confirmed deaths rows of
      Inl e \<Rightarrow> load parse confirmed deaths [] = Inl e
    | Inr st \<Rightarrow> vaccination_data st = vaccination_reshape parse rows)"
  proof (cases "to_datetime parse (melt confirmed)")
    case (Inl e)
    then show ?thesis by (simp add: load_def)
  next
    case cd: (Inr cd)
    show ?thesis
    proof (cases "to_datetime parse (melt deaths)")
      case (Inl e)
      with cd show ?thesis by (simp add: load_def)
    next
      case (Inr dd)
      with cd show ?thesis by (simp add: load_def Let_def)
    qed
  qed
  then show ?thesis by (simp add: vaccination_reshape_def comp_def)
qed

text \<open>
  C7 as stated fails: the date \<open>soon\<close> does not parse, and its row is the third
  row of the reshaped table, with no date.
\<close>

theorem unparsable_date_row_is_kept:
  "ex_parse ''soon'' = None \<and>
   vaccination_reshape ex_parse ex_vaccinations =
     [\<lparr>v_Country = ''China'', v_Date = Some 18637, v_total_vaccinations = Some 100\<rparr>,
      \<lparr>v_Country = ''china'', v_Date = Some 18638, v_total_vaccinations = Some 900\<rparr>,
      \<lparr>v_Country = ''China'', v_Date = None, v_total_vaccinations = Some 50\<rparr>,
      \<lparr>v_Country = ''Tonga'', v_Date = Some 18637, v_total_vaccinations = Some 8\<rparr>]"
  by code_simp

subsection \<open>C8: the universe is the countries of the confirmed table\<close>

text \<open>
  C8. After a load that succeeds, the countries of the summary are exactly the
  countries of the confirmed table, each once; the two left joins add and drop none. The
  confirmed table is the melted one: when the source has at least one date column these
  are the countries of its rows.
\<close>

theorem universe_is_confirmed_countries:
  assumes "load parse confirmed deaths vaccinations = Inr st"
  shows "set (map Country (country_data st)) =
           set (map (\<lambda>r. Country_Region (id_of r)) (confirmed_data st)) \<and>
         distinct (map Country (country_data st)) \<and>
         (date_columns confirmed \<noteq> [] \<longrightarrow>
            set (map Country (country_data st)) =
              set (map (\<lambda>r. Country_Region (id_vars r)) (wide_rows confirmed)))"
proof -
  note L = load_Inr [OF assms]
  have 1: "set (map Country (country_data st)) =
           set (map (\<lambda>r. Country_Region (id_of r)) (confirmed_data st))"
    and 2: "distinct (map Country (country_data st))"
    using L by (simp_all add: merge_summaries_eq comp_def)
  have 3: "set (map Country (country_data st)) =
              set (map (\<lambda>r. Country_Region (id_vars r)) (wide_rows confirmed))"
    if ne: "date_columns confirmed \<noteq> []"
  proof -
    from L have "map id_of (confirmed_data st) = map id_of (melt confirmed)"
      using ids_to_datetime [of parse "melt confirmed" "confirmed_data st"] by simp
    then have "set (map id_of (confirmed_data st)) = set (map id_vars (wide_rows confirmed))"
      by (simp only: set_ids_melt [OF ne])
    then have "Country_Region ` set (map id_of (confirmed_data st)) =
               Country_Region ` set (map id_vars (wide_rows confirmed))" by simp
    then show ?thesis unfolding 1 by (simp add: image_image)
  qed
  from 1 2 3 show ?thesis by blast
qed

text \<open>
  In the data set Tonga has vaccination rows only and is not in the universe.
\<close>

theorem universe_is_confirmed_countries_witness:
  "load ex_parse ex_confirmed ex_deaths ex_vaccinations = Inr ex_store \<and>
   date_columns ex_confirmed \<noteq> [] \<and>
   set (map Country (country_data ex_store)) = {''China'', ''Fiji''} \<and>
   set (map (\<lambda>r. Country_Region (id_vars r)) (wide_rows ex_confirmed)) = {''China'', ''Fiji''} \<and>
   ''Tonga'' \<in> set (map v_Country (vaccination_data ex_store)) \<and>
   ''Tonga'' \<notin> set (map Country (country_data ex_store))"
proof -
  have ne: "date_columns ex_confirmed \<noteq> []" by (simp add: ex_confirmed_def)
  have w: "set (map (\<lambda>r. Country_Region (id_vars r)) (wide_rows ex_confirmed)) =
           {''China'', ''Fiji''}"
    by (auto simp: ex_confirmed_def hubei_def beijing_def fiji_def)
  have t: "''Tonga'' \<in> set (map v_Country (vaccination_data ex_store))"
    by (simp add: ex_store_def)
  from universe_is_confirmed_countries [OF load_ex] ne
  have u: "set (map Country (country_data ex_store)) =
           set (map (\<lambda>r. Country_Region (id_vars r)) (wide_rows ex_confirmed))"
    by blast
  have n: "''Tonga'' \<notin> set (map Country (country_data ex_store))"
    unfolding u w by simp
  from load_ex ne u w t n show ?thesis by (simp only: simp_thms)
qed

subsection \<open>C9: melting loses and invents nothing\<close>

text \<open>
  C9. A wide table with N rows and D date columns melts to N times D rows. For a date
  label of the table (pandas keeps the labels of a table distinct), the sum of the melted
  values of an identity and that date is the sum of the cells of that column over the rows
  with that identity; and when the identities of the rows are distinct, the melted values
  of a row's identity and that date are the one original cell, missing or not.
\<close>

theorem reshape_round_trip:
  assumes "distinct (date_columns t)" and "d \<in> set (date_columns t)"
  shows "length (melt t) = length (wide_rows t) * length (date_columns t) \<and>
         spec_sum_by_identity_date (melt t) k d =
           sum_list (dropna (map (\<lambda>r. cells r d) (filter (\<lambda>r. id_vars r = k) (wide_rows t)))) \<and>
         (distinct (map id_vars (wide_rows t)) \<longrightarrow> r \<in> set (wide_rows t) \<longrightarrow>
            map Value (filter (\<lambda>x. id_of x = id_vars r \<and> Date x = d) (melt t)) = [cells r d])"
proof -
  have f: "filter (\<lambda>x. id_of x = i \<and> Date x = d) (melt t) =
           map (\<lambda>r. LongRow (id_vars r) d (cells r d)) (filter (\<lambda>r. id_vars r = i) (wide_rows t))"
    for i
    unfolding filter_melt using assms by (rule concat_pick)
  have one: "distinct (map id_vars rows) \<Longrightarrow> r \<in> set rows \<Longrightarrow>
             filter (\<lambda>x. id_vars x = id_vars r) rows = [r]" for rows
    by (induction rows) (auto simp: filter_empty_conv image_iff)
  show ?thesis
    by (auto simp: length_melt spec_sum_by_identity_date_def f comp_def one)
qed

theorem reshape_round_trip_witness:
  "distinct (date_columns ex_confirmed) \<and> ''1/22/20'' \<in> set (date_columns ex_confirmed) \<and>
   length (melt ex_confirmed) = 3 \<and>
   spec_sum_by_identity_date (melt ex_confirmed) beijing ''1/22/20'' = 7 \<and>
   map Value (filter (\<lambda>x. id_of x = beijing \<and> Date x = ''1/22/20'') (melt ex_confirmed)) =
     [Some 7]"
proof -
  have h1: "distinct (date_columns ex_confirmed)" by (simp add: ex_defs)
  have h2: "''1/22/20'' \<in> set (date_columns ex_confirmed)" by (simp add: ex_defs)
  have h3: "distinct (map id_vars (wide_rows ex_confirmed))" by (simp add: ex_defs)
  have h4: "WideRow beijing (one_cell 7) \<in> set (wide_rows ex_confirmed)" by (simp add: ex_defs)
  from reshape_round_trip [OF h1 h2, of beijing "WideRow beijing (one_cell 7)"] h1 h2 h3 h4
  show ?thesis by (simp add: ex_defs)
qed

subsection \<open>C10: the map does not depend on the selected country\<close>

text \<open>
  C10. For one store and one metric selection, any two non-empty country selections
  that the callback answers get the same map; and for each of the three metrics the
  callback answers every non-empty country, with the map of lines 128 to 138, which is
  computed from the summary table and the metric alone.
\<close>

theorem map_independent_of_country:
  assumes "c1 \<noteq> []" and "c2 \<noteq> []"
  shows "(update_visualizations st (Some c1) sel = Inr (f1, t1) \<longrightarrow>
          update_visualizations st (Some c2) sel = Inr (f2, t2) \<longrightarrow> f1 = f2) \<and>
         (m \<in> {''Confirmed Cases'', ''Deaths'', ''total_vaccinations''} \<longrightarrow>
          (\<exists>f u1 u2. map_figure (country_data st) m = Inr f \<and>
             update_visualizations st (Some c1) (Some m) = Inr (f, u1) \<and>
             update_visualizations st (Some c2) (Some m) = Inr (f, u2)))"
proof (intro conjI impI)
  assume 1: "update_visualizations st (Some c1) sel = Inr (f1, t1)"
    and 2: "update_visualizations st (Some c2) sel = Inr (f2, t2)"
  from update_visualizations_map [OF assms(1) 1] update_visualizations_map [OF assms(2) 2]
  show "f1 = f2" by (simp split: if_splits)
next
  assume m: "m \<in> {''Confirmed Cases'', ''Deaths'', ''total_vaccinations''}"
  from map_figure_recognised [OF m] obtain f where f: "map_figure (country_data st) m = Inr f" ..
  from update_visualizations_recognised [OF assms(1) m f]
    update_visualizations_recognised [OF assms(2) m f] f
  show "\<exists>f u1 u2. map_figure (country_data st) m = Inr f \<and>
             update_visualizations st (Some c1) (Some m) = Inr (f, u1) \<and>
             update_visualizations st (Some c2) (Some m) = Inr (f, u2)" by blast
qed

theorem map_independent_of_country_witness:
  "''China'' \<noteq> [] \<and> ''Fiji'' \<noteq> [] \<and>
   update_visualizations ex_store (Some ''China'') (Some ''Deaths'') =
     Inr (Choropleth [''China'', ''Fiji''] [Num (Some 2), Num None] ''Deaths''
            ''Global Deaths Data'',
          LineFigure (CaseTable ''Deaths''
                        [LongRow hubei 18283 (Some 1), LongRow beijing 18283 (Some 2)])
            ''Date'' ''Deaths'' ''Deaths Over Time in China'') \<and>
   update_visualizations ex_store (Some ''Fiji'') (Some ''Deaths'') =
     Inr (Choropleth [''China'', ''Fiji''] [Num (Some 2), Num None] ''Deaths''
            ''Global Deaths Data'', EmptyFigure)"
proof -
  have a: "update_visualizations ex_store (Some ''China'') (Some ''Deaths'') =
     Inr (Choropleth [''China'', ''Fiji''] [Num (Some 2), Num None] ''Deaths''
            ''Global Deaths Data'',
          LineFigure (CaseTable ''Deaths''
                        [LongRow hubei 18283 (Some 1), LongRow beijing 18283 (Some 2)])
            ''Date'' ''Deaths'' ''Deaths Over Time in China'')"
    by code_simp
  have f: "update_visualizations ex_store (Some ''Fiji'') (Some ''Deaths'') =
     Inr (Choropleth [''China'', ''Fiji''] [Num (Some 2), Num None] ''Deaths''
            ''Global Deaths Data'', EmptyFigure)"
    by code_simp
  have c: "''China'' \<noteq> []" and d: "''Fiji'' \<noteq> []" by simp_all
  from map_independent_of_country [OF c d, of ex_store "Some ''Deaths''" _ _ _ EmptyFigure
      "''Deaths''"] a f
  show ?thesis by simp
qed

end
